theory Spec2Isabelle
  imports Main
begin

section \<open>JavaScript values\<close>

text \<open>
  The components are JavaScript (Vue) objects. Their fields hold JavaScript values; the
  ones the code inspects are modelled by the datatypes below. A property read on
  \<^verbatim>\<open>undefined\<close> or \<^verbatim>\<open>null\<close> throws a TypeError, which the model returns as
  the left summand of a sum type; a method of the document that refuses a call throws a
  DOMException. A string is the list of its code units, so that
  \<open>length\<close> is \<^verbatim>\<open>.length\<close>; a number is an integer or \<^verbatim>\<open>NaN\<close>, the only
  numbers the components compute with.
\<close>

datatype exn = TypeError | DOMException

datatype jsnum = Num int | NaN

datatype jsval =
    Undefined
  | Null
  | JBool bool
  | JNum jsnum
  | JStr string
  | JObj "(string \<times> jsval) list"

text \<open>Truthiness, as used by \<^verbatim>\<open>if (x)\<close>, \<^verbatim>\<open>!x\<close> and \<^verbatim>\<open>x || y\<close>.\<close>

fun truthy_num :: "jsnum \<Rightarrow> bool" where
  "truthy_num (Num n) = (n \<noteq> 0)"
| "truthy_num NaN = False"

fun truthy :: "jsval \<Rightarrow> bool" where
  "truthy Undefined = False"
| "truthy Null = False"
| "truthy (JBool b) = b"
| "truthy (JNum n) = truthy_num n"
| "truthy (JStr s) = (s \<noteq> [])"
| "truthy (JObj kvs) = True"

text \<open>\<^verbatim>\<open>a || b\<close> on values.\<close>

definition js_or :: "jsval \<Rightarrow> jsval \<Rightarrow> jsval" where
  "js_or a b = (if truthy a then a else b)"

text \<open>
  The property read \<^verbatim>\<open>v.k\<close> for a key \<open>k\<close> that is no built-in property of a
  primitive (the code reads \<^verbatim>\<open>error\<close>, \<^verbatim>\<open>id\<close>): a missing key of an object and any
  key of a primitive give \<^verbatim>\<open>undefined\<close>.
\<close>

fun get_prop :: "jsval \<Rightarrow> string \<Rightarrow> exn + jsval" where
  "get_prop Undefined k = Inl TypeError"
| "get_prop Null k = Inl TypeError"
| "get_prop (JObj kvs) k = Inr (case map_of kvs k of None \<Rightarrow> Undefined | Some v \<Rightarrow> v)"
| "get_prop v k = Inr Undefined"

text \<open>An object whose identity is fixed (a component field that is never reassigned).\<close>

type_synonym object = "string \<rightharpoonup> jsval"

definition field :: "object \<Rightarrow> string \<Rightarrow> jsval" where
  "field obj k = (case obj k of None \<Rightarrow> Undefined | Some v \<Rightarrow> v)"

text \<open>How a promise settles.\<close>

datatype 'a outcome = Fulfilled 'a | Rejected


section \<open>The registration form (components/registration/registration.js)\<close>

record registration =
  user :: object
  error :: jsval
  registering :: bool

definition registration_data :: registration where
  "registration_data = \<lparr>user = Map.empty, error = JBool False, registering = False\<rparr>"

text \<open>
  What \<^verbatim>\<open>submit\<close> does outside the component: the call of the backend, the dispatch to
  the store and the navigation, in the order they happen.
\<close>

datatype effect =
    Register object
  | Dispatch string object
  | RouterPush string

text \<open>
  The response of the backend: its \<^verbatim>\<open>ok\<close> flag, and what \<^verbatim>\<open>response.json()\<close>
  resolves to (\<open>None\<close> when the body is no JSON and the promise rejects).
\<close>

record response =
  ok :: bool
  json :: "jsval option"

text \<open>The synchronous part of \<^verbatim>\<open>submit\<close>, up to the call of \<^verbatim>\<open>register\<close>.\<close>

definition submit :: "registration \<Rightarrow> registration \<times> effect list" where
  "submit s =
     (let s1 = s\<lparr>registering := True\<rparr>;
          s2 = s1\<lparr>user := (user s1)(''nickname'' \<mapsto> field (user s1) ''username'')\<rparr>
      in (s2, [Register (user s2)]))"

text \<open>The continuation \<^verbatim>\<open>(response) => {...}\<close> of the register promise.\<close>

definition submit_then :: "response \<Rightarrow> registration \<Rightarrow> registration \<times> effect list" where
  "submit_then resp s =
     (if ok resp
      then (s\<lparr>registering := False\<rparr>, [Dispatch ''loginUser'' (user s), RouterPush ''/main/all''])
      else (s\<lparr>registering := False\<rparr>, []))"

text \<open>The continuation \<^verbatim>\<open>(data) => { this.error = data.error }\<close> of \<^verbatim>\<open>response.json()\<close>.\<close>

definition submit_then_json :: "jsval \<Rightarrow> registration \<Rightarrow> exn + registration" where
  "submit_then_json d s =
     (case get_prop d ''error'' of
        Inl e \<Rightarrow> Inl e
      | Inr v \<Rightarrow> Inr (s\<lparr>error := v\<rparr>))"

text \<open>
  \<^verbatim>\<open>submit\<close> with its continuations run to the end, for a given settlement of the
  register promise. A rejected promise has no handler, and an exception inside the last
  continuation is an unhandled rejection: both leave the state as it was.
\<close>

definition submit_settled :: "response outcome \<Rightarrow> registration \<Rightarrow> registration \<times> effect list" where
  "submit_settled r s =
     (let (s1, fx1) = submit s in
      case r of
        Rejected \<Rightarrow> (s1, fx1)
      | Fulfilled resp \<Rightarrow>
          (let (s2, fx2) = submit_then resp s1 in
           if ok resp then (s2, fx1 @ fx2)
           else (case json resp of
                   None \<Rightarrow> (s2, fx1 @ fx2)
                 | Some d \<Rightarrow>
                     (case submit_then_json d s2 of
                        Inl e \<Rightarrow> (s2, fx1 @ fx2)
                      | Inr s3 \<Rightarrow> (s3, fx1 @ fx2)))))"

fun is_login :: "effect \<Rightarrow> bool" where
  "is_login (Dispatch a u) = (a = ''loginUser'')"
| "is_login _ = False"

fun is_navigation :: "effect \<Rightarrow> bool" where
  "is_navigation (RouterPush p) = True"
| "is_navigation _ = False"


section \<open>Pinned navigation items (NavPanel)\<close>

text \<open>
  A navigation entry: its \<^verbatim>\<open>name\<close> and its other properties. The constants
  \<^verbatim>\<open>TIMELINES\<close> and \<^verbatim>\<open>ROOT_ITEMS\<close> (navigation.js), the selector
  \<^verbatim>\<open>getListEntries\<close> (lists_menu_content.vue) and \<^verbatim>\<open>filterNavigation\<close> (filter.js)
  are imported from files outside the component: they are parameters of the model. An
  imported table is given by its entries, \<^verbatim>\<open>Object.entries\<close>, a list of pairs of a key
  and the object stored under it.
\<close>

record 'p nav_item =
  name :: string
  props :: 'p

text \<open>The parts of the store's state that \<^verbatim>\<open>mapState\<close> reads.\<close>

record ('u, 'r) store_state =
  users_currentUser :: 'u
  api_followRequests :: "'r list"
  instance_private :: bool
  instance_federating :: bool
  instance_pleromaChatMessagesAvailable :: bool
  prefsStorage_pinnedNavItems :: "string list"

text \<open>The computed properties that \<^verbatim>\<open>mapState\<close> defines, under the component's names.\<close>

definition currentUser :: "('u, 'r, 'm) store_state_scheme \<Rightarrow> 'u" where
  "currentUser st = users_currentUser st"

definition followRequestCount :: "('u, 'r, 'm) store_state_scheme \<Rightarrow> nat" where
  "followRequestCount st = length (api_followRequests st)"

definition privateMode :: "('u, 'r, 'm) store_state_scheme \<Rightarrow> bool" where
  "privateMode st = instance_private st"

definition federating :: "('u, 'r, 'm) store_state_scheme \<Rightarrow> bool" where
  "federating st = instance_federating st"

definition pleromaChatMessagesAvailable :: "('u, 'r, 'm) store_state_scheme \<Rightarrow> bool" where
  "pleromaChatMessagesAvailable st = instance_pleromaChatMessagesAvailable st"

definition pinnedItems :: "('u, 'r, 'm) store_state_scheme \<Rightarrow> string set" where
  "pinnedItems st = set (prefsStorage_pinnedNavItems st)"

text \<open>
  A read \<^verbatim>\<open>this.k\<close> of one of the component's flags, by the name \<open>k\<close> the code
  writes. The component defines the computed properties \<^verbatim>\<open>getters\<close>, \<^verbatim>\<open>lists\<close>,
  \<^verbatim>\<open>currentUser\<close>, \<^verbatim>\<open>followRequestCount\<close>, \<^verbatim>\<open>privateMode\<close>, \<^verbatim>\<open>federating\<close>,
  \<^verbatim>\<open>pleromaChatMessagesAvailable\<close>, \<^verbatim>\<open>pinnedItems\<close> and \<^verbatim>\<open>pinnedList\<close>, and
  nothing else; a name that is none of them reads as \<^verbatim>\<open>undefined\<close> (\<open>None\<close>).
\<close>

definition this_flag :: "('u, 'r, 'm) store_state_scheme \<Rightarrow> string \<Rightarrow> bool option" where
  "this_flag st k =
     (if k = ''privateMode'' then Some (privateMode st)
      else if k = ''federating'' then Some (federating st)
      else if k = ''pleromaChatMessagesAvailable'' then Some (pleromaChatMessagesAvailable st)
      else None)"

text \<open>The second argument of \<^verbatim>\<open>filterNavigation\<close>.\<close>

record 'u nav_options =
  hasChats :: "bool option"
  isFederating :: "bool option"
  isPrivate :: "bool option"
  currentUser' :: 'u

text \<open>
  \<^verbatim>\<open>Object.entries(table).filter(([k]) => this.pinnedItems.has(k)).map(([k, v]) => ({ ...v, name: k }))\<close>
\<close>

definition pinned_of_table :: "string set \<Rightarrow> (string \<times> 'p) list \<Rightarrow> 'p nav_item list" where
  "pinned_of_table pinned table =
     map (\<lambda>(k, v). \<lparr>name = k, props = v\<rparr>) (filter (\<lambda>(k, v). k \<in> pinned) table)"

text \<open>The list that \<^verbatim>\<open>pinnedList\<close> passes to \<^verbatim>\<open>filterNavigation\<close>.\<close>

definition pinnedList_items ::
  "(string \<times> 'p) list \<Rightarrow> (string \<times> 'p) list \<Rightarrow> (('u, 'r, 'm) store_state_scheme \<Rightarrow> 'p nav_item list)
    \<Rightarrow> ('u, 'r, 'm) store_state_scheme \<Rightarrow> 'p nav_item list" where
  "pinnedList_items TIMELINES ROOT_ITEMS getListEntries st =
     pinned_of_table (pinnedItems st) TIMELINES
     @ filter (\<lambda>k. name k \<in> pinnedItems st) (getListEntries st)
     @ pinned_of_table (pinnedItems st) ROOT_ITEMS"

text \<open>The options that \<^verbatim>\<open>pinnedList\<close> passes to \<^verbatim>\<open>filterNavigation\<close>.\<close>

definition pinnedList_options :: "('u, 'r, 'm) store_state_scheme \<Rightarrow> 'u nav_options" where
  "pinnedList_options st =
     \<lparr>hasChats = this_flag st ''pleromaChatMessagesAvailable'',
      isFederating = this_flag st ''federating'',
      isPrivate = this_flag st ''private'',
      currentUser' = currentUser st\<rparr>"

definition pinnedList ::
  "('p nav_item list \<Rightarrow> 'u nav_options \<Rightarrow> 'x) \<Rightarrow> (string \<times> 'p) list \<Rightarrow> (string \<times> 'p) list
    \<Rightarrow> (('u, 'r, 'm) store_state_scheme \<Rightarrow> 'p nav_item list)
    \<Rightarrow> ('u, 'r, 'm) store_state_scheme \<Rightarrow> 'x" where
  "pinnedList filterNavigation TIMELINES ROOT_ITEMS getListEntries st =
     filterNavigation (pinnedList_items TIMELINES ROOT_ITEMS getListEntries st) (pinnedList_options st)"


section \<open>Follow suggestions (WhoToFollow)\<close>

text \<open>An entry of the backend's reply, with the three properties the code reads.\<close>

record reply_entry =
  display_name :: jsval
  acct :: jsval
  avatar :: jsval

text \<open>
  The user built for an entry. Its properties \<^verbatim>\<open>id\<close> and \<^verbatim>\<open>name\<close> are the fields
  \<open>id'\<close> and \<open>user_name\<close>.
\<close>

record follow_user =
  id' :: jsval
  user_name :: jsval
  screen_name :: jsval
  profile_image_url :: jsval

record who_to_follow =
  users :: "follow_user list"

definition who_to_follow_data :: who_to_follow where
  "who_to_follow_data = \<lparr>users = []\<rparr>"

datatype follow_effect =
    Suggestions jsval
  | ExternalProfile jsval
  | AddNewUsers "jsval list"

text \<open>The object \<^verbatim>\<open>user\<close> that \<^verbatim>\<open>showWhoToFollow\<close> builds for the entry \<open>i\<close>.\<close>

definition entry_user :: "reply_entry \<Rightarrow> follow_user" where
  "entry_user i =
     \<lparr>id' = JNum (Num 0),
      user_name = display_name i,
      screen_name = acct i,
      profile_image_url = js_or (avatar i) (JStr ''/images/avi.png'')\<rparr>"

text \<open>
  One round of the \<^verbatim>\<open>forEach\<close>: the user is pushed, and \<^verbatim>\<open>externalProfile\<close> is
  called with its screen name.
\<close>

definition show_entry :: "reply_entry \<Rightarrow> who_to_follow \<times> follow_effect list \<Rightarrow> who_to_follow \<times> follow_effect list" where
  "show_entry i acc =
     (let (s, fx) = acc;
          u = entry_user i
      in (s\<lparr>users := users s @ [u]\<rparr>, fx @ [ExternalProfile (screen_name u)]))"

definition showWhoToFollow :: "reply_entry list \<Rightarrow> who_to_follow \<Rightarrow> who_to_follow \<times> follow_effect list" where
  "showWhoToFollow reply s = foldl (\<lambda>acc i. show_entry i acc) (s, []) reply"

text \<open>
  The continuation of \<^verbatim>\<open>externalProfile\<close> for the user pushed at position \<open>idx\<close>
  of \<^verbatim>\<open>users\<close>; the list only grows, so the user is still there.
\<close>

definition update_at :: "nat \<Rightarrow> ('a \<Rightarrow> 'a) \<Rightarrow> 'a list \<Rightarrow> 'a list" where
  "update_at idx f xs = (if idx < length xs then xs[idx := f (xs ! idx)] else xs)"

definition externalProfile_then ::
  "nat \<Rightarrow> jsval \<Rightarrow> who_to_follow \<Rightarrow> exn + who_to_follow \<times> follow_effect list" where
  "externalProfile_then idx externalUser s =
     (case get_prop externalUser ''error'' of
        Inl e \<Rightarrow> Inl e
      | Inr err \<Rightarrow>
          if \<not> truthy err then
            (case get_prop externalUser ''id'' of
               Inl e \<Rightarrow> Inl e
             | Inr v \<Rightarrow>
                 Inr (s\<lparr>users := update_at idx (\<lambda>u. u\<lparr>id' := v\<rparr>) (users s)\<rparr>,
                      [AddNewUsers [externalUser]]))
          else Inr (s, []))"

definition getWhoToFollow :: "jsval \<Rightarrow> exn + follow_effect list" where
  "getWhoToFollow storeCurrentUser =
     (case get_prop storeCurrentUser ''credentials'' of
        Inl e \<Rightarrow> Inl e
      | Inr credentials \<Rightarrow> Inr (if truthy credentials then [Suggestions credentials] else []))"


section \<open>The input with suggestions (EmojiInput)\<close>

subsection \<open>Strings and numbers\<close>







subsection \<open>The completion service\<close>

text \<open>
  A word with its position, as \<^verbatim>\<open>Completion.wordAtPosition\<close> returns it: the
  properties \<^verbatim>\<open>word\<close>, \<^verbatim>\<open>start\<close> and \<^verbatim>\<open>end\<close>.
\<close>

record word_obj =
  word :: string
  start :: int
  end' :: int

text \<open>
  The value of the computed property \<^verbatim>\<open>wordAtCaret\<close>: \<^verbatim>\<open>undefined\<close>, the empty object
  \<^verbatim>\<open>{}\<close> that stands in for a falsy result of \<^verbatim>\<open>wordAtPosition\<close>, or a word.
\<close>

datatype at_caret = NoWord | EmptyObject | Word word_obj

text \<open>
  The module services/completion/completion.js is imported by the component and is not
  part of the sources: its two functions are parameters of the model.
  \<^verbatim>\<open>wordAtPosition(str, pos)\<close> gives a word or a falsy value (\<open>None\<close>);
  \<^verbatim>\<open>replaceWord(str, toReplace, replacement)\<close> gives a string or throws.
\<close>

record completion =
  wordAtPosition :: "string \<Rightarrow> int \<Rightarrow> word_obj option"
  replaceWord :: "string \<Rightarrow> at_caret \<Rightarrow> string \<Rightarrow> exn + string"



subsection \<open>Props and data\<close>

text \<open>
  A suggestion, as the comment on the prop \<^verbatim>\<open>suggest\<close> declares it; the computed
  property \<^verbatim>\<open>suggestions\<close> turns it into an entry with \<^verbatim>\<open>img\<close> in the place of
  \<^verbatim>\<open>imageUrl\<close> and with the flag \<^verbatim>\<open>highlighted\<close> (the field \<open>is_highlighted\<close>).
\<close>

record suggestion_rest =
  displayText :: string
  replacement :: string
  detailText :: "string option"

record suggestion = suggestion_rest +
  imageUrl :: "string option"

record shown_suggestion = suggestion_rest +
  img :: string
  is_highlighted :: bool

text \<open>A node of the default slot, with its tag.\<close>

datatype vnode = VNode (tag: string)

text \<open>
  The props \<^verbatim>\<open>value\<close> (the field \<open>value'\<close>) and \<^verbatim>\<open>suggest\<close>, and the data of the
  component. A timer handle is a positive number; \<^verbatim>\<open>null\<close> is \<open>None\<close>.
\<close>

record emoji_input =
  value' :: string
  suggest :: "string \<Rightarrow> suggestion list"
  input :: "vnode option"
  highlighted :: int
  caret :: jsnum
  focused :: bool
  blurTimeout :: "nat option"
  showPicker :: bool
  temporarilyHideSuggestions :: bool
  spamMode :: bool
  disableClickOutside :: bool

definition emoji_input_data :: "string \<Rightarrow> (string \<Rightarrow> suggestion list) \<Rightarrow> emoji_input" where
  "emoji_input_data v sg =
     \<lparr>value' = v, suggest = sg, input = None, highlighted = 0, caret = Num 0, focused = False,
      blurTimeout = None, showPicker = False, temporarilyHideSuggestions = False,
      spamMode = False, disableClickOutside = False\<rparr>"



subsection \<open>Computed properties\<close>

definition wordAtCaret :: "completion \<Rightarrow> emoji_input \<Rightarrow> at_caret" where
  "wordAtCaret C s =
     (case caret s of
        NaN \<Rightarrow> NoWord
      | Num c \<Rightarrow>
          if value' s \<noteq> [] \<and> c \<noteq> 0 then
            (case wordAtPosition C (value' s) (c - 1) of
               None \<Rightarrow> EmptyObject
             | Some w \<Rightarrow> Word w)
          else NoWord)"

definition textAtCaret :: "completion \<Rightarrow> emoji_input \<Rightarrow> string" where
  "textAtCaret C s =
     (case wordAtCaret C s of
        NoWord \<Rightarrow> []
      | EmptyObject \<Rightarrow> []
      | Word w \<Rightarrow> word w)"

text \<open>The function mapped over the first five matches, with the index of each.\<close>

definition shown :: "int \<Rightarrow> nat \<times> suggestion \<Rightarrow> shown_suggestion" where
  "shown h p =
     (case p of (index, sg) \<Rightarrow>
        \<lparr>displayText = displayText sg, replacement = replacement sg, detailText = detailText sg,
         img = (case imageUrl sg of None \<Rightarrow> [] | Some u \<Rightarrow> u),
         is_highlighted = (int index = h)\<rparr>)"

definition suggestions :: "completion \<Rightarrow> emoji_input \<Rightarrow> shown_suggestion list" where
  "suggestions C s =
     (let firstchar = take 1 (textAtCaret C s) in
      if textAtCaret C s = firstchar then []
      else
        (let matchedSuggestions = suggest s (textAtCaret C s) in
         if length matchedSuggestions \<le> 0 then []
         else map (shown (highlighted s)) (enumerate 0 (take 5 matchedSuggestions))))"

definition showSuggestions :: "completion \<Rightarrow> emoji_input \<Rightarrow> bool" where
  "showSuggestions C s \<longleftrightarrow>
     focused s \<and> length (suggestions C s) > 0 \<and> \<not> showPicker s \<and> \<not> temporarilyHideSuggestions s"


subsection \<open>Methods\<close>

text \<open>
  What a method leaves behind: the data of the component when it returns or throws
  (\<open>after\<close>), the values it emitted as \<^verbatim>\<open>input\<close> events, the position captured by the
  callback it gave to \<^verbatim>\<open>$nextTick\<close>, whether it called \<^verbatim>\<open>e.preventDefault()\<close>, and
  the exception that ended it, if one did. The prop \<^verbatim>\<open>value\<close> does not change while a
  method runs: the parent assigns it when the component is rendered again.

  The methods also act on the document. \<^verbatim>\<open>resize\<close> moves the panel and the picker
  of the template; it writes no data of the component, and the model leaves it out and
  takes it to return. The callback given to \<^verbatim>\<open>$nextTick\<close> calls \<^verbatim>\<open>focus\<close> and
  \<^verbatim>\<open>setSelectionRange\<close> of the input element; it is modelled below, after
  \<^verbatim>\<open>onFocus\<close>, which these calls can set off.
\<close>

record method_result =
  after :: emoji_input
  emitted :: "string list"
  nextTick :: "jsnum option"
  defaultPrevented :: bool
  thrown :: "exn option"

definition returns :: "emoji_input \<Rightarrow> method_result" where
  "returns s = \<lparr>after = s, emitted = [], nextTick = None, defaultPrevented = False, thrown = None\<rparr>"

definition throws :: "exn \<Rightarrow> method_result \<Rightarrow> method_result" where
  "throws e r = r\<lparr>thrown := Some e\<rparr>"

text \<open>\<^verbatim>\<open>setCaret\<close>, for an event whose target reports the number \<open>selectionStart\<close>.\<close>

definition setCaret :: "int \<Rightarrow> emoji_input \<Rightarrow> emoji_input" where
  "setCaret selectionStart s = s\<lparr>caret := Num selectionStart\<rparr>"



text \<open>
  \<^verbatim>\<open>suggestion || this.suggestions[this.highlighted]\<close>, then \<^verbatim>\<open>.replacement\<close>: an
  index outside the list gives \<^verbatim>\<open>undefined\<close>, whose property cannot be read.
\<close>

definition chosen_replacement ::
  "shown_suggestion option \<Rightarrow> shown_suggestion list \<Rightarrow> int \<Rightarrow> exn + string" where
  "chosen_replacement suggestion sugs h =
     (case suggestion of
        Some g \<Rightarrow> Inr (replacement g)
      | None \<Rightarrow>
          if 0 \<le> h \<and> h < int (length sugs) then Inr (replacement (sugs ! nat h))
          else Inl TypeError)"

text \<open>
  \<^verbatim>\<open>this.wordAtCaret.start + replacement.length\<close>: reading \<^verbatim>\<open>start\<close> of
  \<^verbatim>\<open>undefined\<close> throws, and the empty object has no \<^verbatim>\<open>start\<close>, which makes the sum
  \<^verbatim>\<open>NaN\<close>.
\<close>

definition position_after :: "at_caret \<Rightarrow> string \<Rightarrow> exn + jsnum" where
  "position_after w repl =
     (case w of
        NoWord \<Rightarrow> Inl TypeError
      | EmptyObject \<Rightarrow> Inr NaN
      | Word w' \<Rightarrow> Inr (Num (start w' + int (length repl))))"

text \<open>\<^verbatim>\<open>replaceText(e, suggestion)\<close>; the suggestion is \<open>None\<close> when the argument is left out.\<close>

definition replaceText :: "completion \<Rightarrow> shown_suggestion option \<Rightarrow> emoji_input \<Rightarrow> method_result" where
  "replaceText C suggestion s =
     (let len = length (suggestions C s) in
      if length (textAtCaret C s) = 1 then returns s
      else if len > 0 \<or> suggestion \<noteq> None then
        (case chosen_replacement suggestion (suggestions C s) (highlighted s) of
           Inl e \<Rightarrow> throws e (returns s)
         | Inr repl \<Rightarrow>
             (case replaceWord C (value' s) (wordAtCaret C s) repl of
                Inl e \<Rightarrow> throws e (returns s)
              | Inr newValue \<Rightarrow>
                  (let s1 = s\<lparr>highlighted := 0\<rparr>;
                       r1 = (returns s1)\<lparr>emitted := [newValue]\<rparr>
                   in case position_after (wordAtCaret C s1) repl of
                        Inl e \<Rightarrow> throws e r1
                      | Inr position \<Rightarrow> r1\<lparr>nextTick := Some position, defaultPrevented := True\<rparr>)))
      else returns s)"

text \<open>\<^verbatim>\<open>cycleBackward\<close> and \<^verbatim>\<open>cycleForward\<close>\<close>

definition cycleBackward :: "completion \<Rightarrow> emoji_input \<Rightarrow> method_result" where
  "cycleBackward C s =
     (let len = length (suggestions C s) in
      if len > 1 then
        (let s1 = s\<lparr>highlighted := highlighted s - 1\<rparr>;
             s2 = (if highlighted s1 < 0
                   then s1\<lparr>highlighted := int (length (suggestions C s1)) - 1\<rparr>
                   else s1)
         in (returns s2)\<lparr>defaultPrevented := True\<rparr>)
      else returns (s\<lparr>highlighted := 0\<rparr>))"

definition cycleForward :: "completion \<Rightarrow> emoji_input \<Rightarrow> method_result" where
  "cycleForward C s =
     (let len = length (suggestions C s) in
      if len > 1 then
        (let s1 = s\<lparr>highlighted := highlighted s + 1\<rparr>;
             s2 = (if highlighted s1 \<ge> int len then s1\<lparr>highlighted := 0\<rparr> else s1)
         in (returns s2)\<lparr>defaultPrevented := True\<rparr>)
      else returns (s\<lparr>highlighted := 0\<rparr>))"


subsection \<open>Timers, blur and focus\<close>

text \<open>
  The callbacks the component gives to \<^verbatim>\<open>setTimeout\<close>, and the browser's timers:
  how many handles were issued, and the callbacks that are pending, by handle.
  \<^verbatim>\<open>setTimeout\<close> issues a new positive handle each time.
\<close>

datatype timer_callback = BlurCallback | ClickOutsideCallback

record timers =
  issued :: nat
  pending :: "nat \<rightharpoonup> timer_callback"

definition no_timers :: timers where
  "no_timers = \<lparr>issued = 0, pending = Map.empty\<rparr>"

definition setTimeout :: "timer_callback \<Rightarrow> timers \<Rightarrow> nat \<times> timers" where
  "setTimeout cb tm =
     (let h = Suc (issued tm) in (h, tm\<lparr>issued := h, pending := (pending tm)(h \<mapsto> cb)\<rparr>))"

definition clearTimeout :: "nat \<Rightarrow> timers \<Rightarrow> timers" where
  "clearTimeout h tm = tm\<lparr>pending := (pending tm)(h := None)\<rparr>"

definition triggerShowPicker :: "emoji_input \<times> timers \<Rightarrow> emoji_input \<times> timers" where
  "triggerShowPicker st =
     (let (s, tm) = st;
          s1 = s\<lparr>showPicker := True, disableClickOutside := True\<rparr>;
          (h, tm1) = setTimeout ClickOutsideCallback tm
      in (s1, tm1))"

definition onBlur :: "emoji_input \<times> timers \<Rightarrow> emoji_input \<times> timers" where
  "onBlur st =
     (let (s, tm) = st;
          (h, tm1) = setTimeout BlurCallback tm
      in (s\<lparr>blurTimeout := Some h\<rparr>, tm1))"

text \<open>\<^verbatim>\<open>onFocus(e)\<close>, for an event whose target reports \<open>selectionStart\<close>.\<close>

definition onFocus :: "int \<Rightarrow> emoji_input \<times> timers \<Rightarrow> emoji_input \<times> timers" where
  "onFocus selectionStart st =
     (let (s, tm) = st;
          (s1, tm1) = (case blurTimeout s of
                         None \<Rightarrow> (s, tm)
                       | Some h \<Rightarrow>
                           if h \<noteq> 0 then (s\<lparr>blurTimeout := None\<rparr>, clearTimeout h tm)
                           else (s, tm));
          s2 = (if \<not> spamMode s1 then s1\<lparr>showPicker := False\<rparr> else s1);
          s3 = s2\<lparr>focused := True\<rparr>;
          s4 = setCaret selectionStart s3;
          s5 = s4\<lparr>temporarilyHideSuggestions := False\<rparr>
      in (s5, tm1))"

text \<open>
  The browser runs a pending timer: its callback runs and the timer is gone. A handle
  that is not pending runs nothing. The callback of \<^verbatim>\<open>onBlur\<close> reads the selection of
  the event's target when it runs.
\<close>

definition fire :: "nat \<Rightarrow> int \<Rightarrow> emoji_input \<times> timers \<Rightarrow> emoji_input \<times> timers" where
  "fire h selectionStart st =
     (let (s, tm) = st in
      case pending tm h of
        None \<Rightarrow> (s, tm)
      | Some BlurCallback \<Rightarrow>
          (setCaret selectionStart (s\<lparr>focused := False\<rparr>), clearTimeout h tm)
      | Some ClickOutsideCallback \<Rightarrow>
          (s\<lparr>disableClickOutside := False\<rparr>, clearTimeout h tm))"

text \<open>
  Every pending callback of \<^verbatim>\<open>onBlur\<close> is the one whose handle \<^verbatim>\<open>blurTimeout\<close>
  holds: the state after a blur that found no such callback pending.
\<close>

definition blur_tracked :: "emoji_input \<times> timers \<Rightarrow> bool" where
  "blur_tracked st \<longleftrightarrow>
     (\<forall>h. pending (snd st) h = Some BlurCallback \<longrightarrow> blurTimeout (fst st) = Some h \<and> h \<noteq> 0)"


subsection \<open>The callback given to $nextTick\<close>










subsection \<open>Sequences of events\<close>

text \<open>The browser runs timers one after the other, each given with the selection at its time.\<close>

fun fires :: "(nat \<times> int) list \<Rightarrow> emoji_input \<times> timers \<Rightarrow> emoji_input \<times> timers" where
  "fires [] st = st"
| "fires ((h, selectionStart) # fs) st = fires fs (fire h selectionStart st)"


text \<open>
  The events of the input element that reach the component's focus flag: the element
  loses the focus, gains it (with the selection it then has), or a timer runs. In the
  browser the two focus events of one element alternate: an element loses the focus only
  while it has it, and gains it only while it does not.
\<close>

datatype dom_event = Blur | Focus int | Timeout nat int

fun handle_event :: "dom_event \<Rightarrow> emoji_input \<times> timers \<Rightarrow> emoji_input \<times> timers" where
  "handle_event Blur st = onBlur st"
| "handle_event (Focus selectionStart) st = onFocus selectionStart st"
| "handle_event (Timeout h selectionStart) st = fire h selectionStart st"

fun run :: "dom_event list \<Rightarrow> emoji_input \<times> timers \<Rightarrow> emoji_input \<times> timers" where
  "run [] st = st"
| "run (e # es) st = run es (handle_event e st)"

fun alternating :: "bool \<Rightarrow> dom_event list \<Rightarrow> bool" where
  "alternating has_focus [] = True"
| "alternating has_focus (Blur # es) = (has_focus \<and> alternating False es)"
| "alternating has_focus (Focus selectionStart # es) = (\<not> has_focus \<and> alternating True es)"
| "alternating has_focus (Timeout h selectionStart # es) = alternating has_focus es"

definition no_blur_pending :: "emoji_input \<times> timers \<Rightarrow> bool" where
  "no_blur_pending st \<longleftrightarrow> (\<forall>h. pending (snd st) h \<noteq> Some BlurCallback)"


section \<open>Sample instances\<close>

text \<open>
  Concrete values at which the theorems below are evaluated: a completion service that
  takes the words of a text to be its runs of characters between spaces (a space is a
  word of its own) and replaces a word by splicing, and a suggest function with six
  matches for every text.
\<close>

definition sample_wordAtPosition :: "string \<Rightarrow> int \<Rightarrow> word_obj option" where
  "sample_wordAtPosition str pos =
     (if 0 \<le> pos \<and> pos < int (length str) then
        (let p = nat pos in
         if str ! p = CHR '' '' then Some \<lparr>word = '' '', start = pos, end' = pos + 1\<rparr>
         else
           (let left = length (takeWhile (\<lambda>c. c \<noteq> CHR '' '') (rev (take p str)));
                right = length (takeWhile (\<lambda>c. c \<noteq> CHR '' '') (drop p str))
            in Some \<lparr>word = take (left + right) (drop (p - left) str),
                     start = pos - int left, end' = pos + int right\<rparr>))
      else None)"

definition sample_replaceWord :: "string \<Rightarrow> at_caret \<Rightarrow> string \<Rightarrow> exn + string" where
  "sample_replaceWord str toReplace r =
     (case toReplace of
        NoWord \<Rightarrow> Inl TypeError
      | EmptyObject \<Rightarrow> Inr (str @ r @ str)
      | Word w \<Rightarrow> Inr (take (nat (start w)) str @ r @ drop (nat (end' w)) str))"

definition sample_completion :: completion where
  "sample_completion =
     \<lparr>wordAtPosition = sample_wordAtPosition, replaceWord = sample_replaceWord\<rparr>"

definition sample_suggest :: "string \<Rightarrow> suggestion list" where
  "sample_suggest t =
     map (\<lambda>n. \<lparr>displayText = t @ n, replacement = '':'' @ n @ '':'', detailText = None,
               imageUrl = (if n = ''b'' then Some ''/b.png'' else None)\<rparr>)
       [''a'', ''b'', ''c'', ''d'', ''e'', ''f'']"

definition sample_input :: emoji_input where
  "sample_input =
     (emoji_input_data ''hi :sm'' sample_suggest)\<lparr>input := Some (VNode ''textarea''), caret := Num 6\<rparr>"


definition sample_registration :: registration where
  "sample_registration =
     registration_data\<lparr>user := [''username'' \<mapsto> JStr ''alice'', ''nickname'' \<mapsto> JStr ''old'']\<rparr>"

definition sample_failure :: response where
  "sample_failure = \<lparr>ok = False, json = Some (JObj [(''error'', JStr ''Username is taken'')])\<rparr>"

definition sample_success :: response where
  "sample_success = \<lparr>ok = True, json = Some (JObj [])\<rparr>"


definition sample_TIMELINES :: "(string \<times> string) list" where
  "sample_TIMELINES = [(''friends'', ''/main/friends''), (''public'', ''/main/public''), (''bookmarks'', ''/bookmarks'')]"

definition sample_ROOT_ITEMS :: "(string \<times> string) list" where
  "sample_ROOT_ITEMS = [(''interactions'', ''/interactions''), (''chats'', ''/chats'')]"

definition sample_store :: "(jsval, unit) store_state" where
  "sample_store =
     \<lparr>users_currentUser = JObj [(''screen_name'', JStr ''alice'')], api_followRequests = [],
      instance_private = False, instance_federating = True,
      instance_pleromaChatMessagesAvailable = True,
      prefsStorage_pinnedNavItems = [''friends'', ''list-2'', ''chats'', ''gone'']\<rparr>"

definition sample_getListEntries :: "(jsval, unit) store_state \<Rightarrow> string nav_item list" where
  "sample_getListEntries st =
     [\<lparr>name = ''list-1'', props = ''/lists/1''\<rparr>, \<lparr>name = ''list-2'', props = ''/lists/2''\<rparr>]"

definition sample_filterNavigation :: "string nav_item list \<Rightarrow> jsval nav_options \<Rightarrow> string nav_item list" where
  "sample_filterNavigation list opts =
     filter (\<lambda>item. \<not> (name item = ''friends'' \<and> isPrivate opts = Some True)
                  \<and> \<not> (name item = ''chats'' \<and> hasChats opts \<noteq> Some True)) list"


definition sample_reply :: "reply_entry list" where
  "sample_reply =
     [\<lparr>display_name = JStr ''Bob'', acct = JStr ''bob@example.org'', avatar = JStr ''/media/bob.png''\<rparr>,
      \<lparr>display_name = JStr ''Carol'', acct = JStr ''carol'', avatar = Undefined\<rparr>,
      \<lparr>display_name = JStr ''Dan'', acct = JStr ''dan'', avatar = JStr ''''\<rparr>]"


definition sample_focused :: "emoji_input \<times> timers" where
  "sample_focused = (sample_input\<lparr>focused := True\<rparr>, no_timers)"







section \<open>Facts about the model\<close>

lemma wordAtCaret_highlighted [simp]:
  "wordAtCaret C (s\<lparr>highlighted := h\<rparr>) = wordAtCaret C s"
  by (simp add: wordAtCaret_def split: jsnum.split)

lemma textAtCaret_highlighted [simp]:
  "textAtCaret C (s\<lparr>highlighted := h\<rparr>) = textAtCaret C s"
  by (simp add: textAtCaret_def)

lemma length_suggestions_highlighted [simp]:
  "length (suggestions C (s\<lparr>highlighted := h\<rparr>)) = length (suggestions C s)"
  by (simp add: suggestions_def Let_def)

lemma sample_fields:
  "value' sample_input = ''hi :sm''" "suggest sample_input = sample_suggest"
  "highlighted sample_input = 0" "caret sample_input = Num 6"
  "input sample_input = Some (VNode ''textarea'')"
  by (simp_all add: sample_input_def emoji_input_data_def)

lemma sample_word:
  "wordAtCaret sample_completion sample_input = Word \<lparr>word = '':sm'', start = 3, end' = 6\<rparr>"
  by (simp add: wordAtCaret_def sample_fields sample_completion_def sample_wordAtPosition_def Let_def)

lemma sample_text: "textAtCaret sample_completion sample_input = '':sm''"
  by (simp add: textAtCaret_def sample_word)

lemma sample_length: "length (suggestions sample_completion sample_input) = 5"
  by (simp add: suggestions_def sample_text sample_suggest_def sample_fields)

lemma empty_length: "length (suggestions C (emoji_input_data [] sg)) = 0"
  by (simp add: suggestions_def textAtCaret_def wordAtCaret_def emoji_input_data_def)


lemma text_short: "(t = take (Suc 0) t) = (length t \<le> Suc 0)" for t :: string
  by (cases t) auto

lemma suggestions_cases:
  "suggestions C s =
     (if length (textAtCaret C s) \<le> 1 \<or> suggest s (textAtCaret C s) = [] then []
      else map (shown (highlighted s)) (enumerate 0 (take 5 (suggest s (textAtCaret C s)))))"
  by (simp add: suggestions_def Let_def text_short)




section \<open>Cycling through the suggestions\<close>

text \<open>
  Claim C1. Cycling wraps at the ends of the list of suggestions. When the list has more
  than one entry, \<^verbatim>\<open>cycleForward\<close> adds 1 to the highlighted index and sets it to 0
  when the sum reaches the length of the list, and \<^verbatim>\<open>cycleBackward\<close> subtracts 1
  and sets it to the length minus 1 when the difference is negative. When the list has
  no entry or one, both set the highlighted index to 0.
\<close>

theorem cycle_wraps:
  "(1 < length (suggestions C s) \<longrightarrow>
      highlighted (after (cycleForward C s))
        = (if highlighted s + 1 \<ge> int (length (suggestions C s)) then 0 else highlighted s + 1)
    \<and> highlighted (after (cycleBackward C s))
        = (if highlighted s - 1 < 0 then int (length (suggestions C s)) - 1 else highlighted s - 1))
   \<and> (length (suggestions C s) \<le> 1 \<longrightarrow>
      highlighted (after (cycleForward C s)) = 0 \<and> highlighted (after (cycleBackward C s)) = 0)"
  by (simp add: cycleForward_def cycleBackward_def returns_def Let_def)

text \<open>
  With five suggestions shown: from index 0 forward to 1 and backward to 4, from index 4
  forward to 0 and backward to 3; with none shown, from index 2 to 0 both ways.
\<close>

theorem cycle_wraps_witness:
  "length (suggestions sample_completion sample_input) = 5
   \<and> highlighted sample_input = 0
   \<and> highlighted (after (cycleForward sample_completion sample_input)) = 1
   \<and> highlighted (after (cycleBackward sample_completion sample_input)) = 4
   \<and> highlighted (after (cycleForward sample_completion (sample_input\<lparr>highlighted := 4\<rparr>))) = 0
   \<and> highlighted (after (cycleBackward sample_completion (sample_input\<lparr>highlighted := 4\<rparr>))) = 3
   \<and> length (suggestions sample_completion (emoji_input_data [] sample_suggest)) = 0
   \<and> highlighted (after (cycleForward sample_completion
         ((emoji_input_data [] sample_suggest)\<lparr>highlighted := 2\<rparr>))) = 0
   \<and> highlighted (after (cycleBackward sample_completion
         ((emoji_input_data [] sample_suggest)\<lparr>highlighted := 2\<rparr>))) = 0"
  using cycle_wraps [of sample_completion sample_input]
    cycle_wraps [of sample_completion "sample_input\<lparr>highlighted := 4\<rparr>"]
    cycle_wraps [of sample_completion "(emoji_input_data [] sample_suggest)\<lparr>highlighted := 2\<rparr>"]
  by (simp add: sample_length empty_length sample_fields)


section \<open>Registration\<close>

lemma submit_simps:
  "registering (fst (submit s)) = True"
  "error (fst (submit s)) = error s"
  "user (fst (submit s)) = (user s)(''nickname'' \<mapsto> field (user s) ''username'')"
  "snd (submit s) = [Register ((user s)(''nickname'' \<mapsto> field (user s) ''username''))]"
  by (simp_all add: submit_def Let_def)

text \<open>
  Claim C2. Submitting a registration that the backend refuses shows the returned error.
  When the register call resolves with a response whose \<^verbatim>\<open>ok\<close> is false, \<^verbatim>\<open>submit\<close>
  sets \<^verbatim>\<open>registering\<close> to false (already in the first continuation) and, once the
  JSON payload \<open>d\<close> of the response is parsed, sets the component's \<^verbatim>\<open>error\<close> to the
  payload's \<^verbatim>\<open>error\<close>. Nothing happens outside the component but the register call:
  no dispatch of \<^verbatim>\<open>loginUser\<close> and no navigation.
\<close>

theorem registration_failure_shows_error:
  assumes "\<not> ok resp" and "json resp = Some d" and "get_prop d ''error'' = Inr v"
  shows "registering (fst (submit_then resp (fst (submit s)))) = False
    \<and> registering (fst (submit_settled (Fulfilled resp) s)) = False
    \<and> error (fst (submit_settled (Fulfilled resp) s)) = v
    \<and> snd (submit_settled (Fulfilled resp) s) = snd (submit s)
    \<and> (\<forall>x \<in> set (snd (submit_settled (Fulfilled resp) s)). \<not> is_login x \<and> \<not> is_navigation x)"
  using assms
  by (simp add: submit_settled_def submit_then_def submit_then_json_def submit_simps split_beta Let_def)

text \<open>A refused registration of the user \<open>alice\<close>, with the payload \<^verbatim>\<open>{"error": "Username is taken"}\<close>.\<close>

theorem registration_failure_shows_error_witness:
  "\<not> ok sample_failure
   \<and> json sample_failure = Some (JObj [(''error'', JStr ''Username is taken'')])
   \<and> get_prop (JObj [(''error'', JStr ''Username is taken'')]) ''error'' = Inr (JStr ''Username is taken'')
   \<and> error sample_registration = JBool False
   \<and> registering (fst (submit_settled (Fulfilled sample_failure) sample_registration)) = False
   \<and> error (fst (submit_settled (Fulfilled sample_failure) sample_registration)) = JStr ''Username is taken''
   \<and> snd (submit_settled (Fulfilled sample_failure) sample_registration)
       = [Register [''username'' \<mapsto> JStr ''alice'', ''nickname'' \<mapsto> JStr ''alice'']]"
  using registration_failure_shows_error [of sample_failure "JObj [(''error'', JStr ''Username is taken'')]"
      "JStr ''Username is taken''" sample_registration]
  by (simp add: sample_failure_def sample_registration_def registration_data_def submit_simps field_def)

text \<open>
  Claim C8. \<^verbatim>\<open>submit\<close> sets \<^verbatim>\<open>registering\<close> to true before it calls the backend, and
  overwrites \<^verbatim>\<open>user.nickname\<close> with \<^verbatim>\<open>user.username\<close> before the call, so that the
  backend receives the user with that nickname. When the register promise resolves,
  with any response, \<^verbatim>\<open>registering\<close> is false again: after the first continuation and
  at the end, in the branch of \<^verbatim>\<open>response.ok\<close> and in the other.
\<close>

theorem registering_cleared:
  "registering (fst (submit s)) = True
   \<and> user (fst (submit s)) = (user s)(''nickname'' \<mapsto> field (user s) ''username'')
   \<and> snd (submit s) = [Register (user (fst (submit s)))]
   \<and> field (user (fst (submit s))) ''nickname'' = field (user s) ''username''
   \<and> registering (fst (submit_then resp (fst (submit s)))) = False
   \<and> registering (fst (submit_settled (Fulfilled resp) s)) = False"
  by (simp add: submit_settled_def submit_then_def submit_then_json_def submit_simps split_beta Let_def field_def
      split: option.split sum.split)

text \<open>The user \<open>alice\<close>, whose nickname was \<open>old\<close>, accepted and refused.\<close>

theorem registering_cleared_witness:
  "registering sample_registration = False
   \<and> registering (fst (submit sample_registration)) = True
   \<and> user (fst (submit sample_registration)) ''nickname'' = Some (JStr ''alice'')
   \<and> registering (fst (submit_settled (Fulfilled sample_success) sample_registration)) = False
   \<and> registering (fst (submit_settled (Fulfilled sample_failure) sample_registration)) = False
   \<and> snd (submit_settled (Fulfilled sample_success) sample_registration)
       = [Register [''username'' \<mapsto> JStr ''alice'', ''nickname'' \<mapsto> JStr ''alice''],
          Dispatch ''loginUser'' [''username'' \<mapsto> JStr ''alice'', ''nickname'' \<mapsto> JStr ''alice''],
          RouterPush ''/main/all'']"
  using registering_cleared [of sample_registration sample_success]
    registering_cleared [of sample_registration sample_failure]
  by (simp add: sample_success_def sample_registration_def registration_data_def field_def
      submit_settled_def submit_then_def submit_simps split_beta)


section \<open>Navigation pins\<close>

lemma pinned_of_table_name: "x \<in> set (pinned_of_table P table) \<Longrightarrow> name x \<in> P"
  by (auto simp: pinned_of_table_def)

text \<open>
  Claim C6. The pinned navigation shows pinned items only. The list that the computed
  property \<^verbatim>\<open>pinnedList\<close> passes to \<^verbatim>\<open>filterNavigation\<close> holds, for every state of
  the store, only entries whose name is in the set \<^verbatim>\<open>pinnedItems\<close> (built from
  \<^verbatim>\<open>serverSideStorage.prefsStorage.collections.pinnedNavItems\<close>), whether the entry
  comes from \<^verbatim>\<open>TIMELINES\<close>, from the lists or from \<^verbatim>\<open>ROOT_ITEMS\<close>.
\<close>

theorem pinned_entries_only:
  "pinnedList filterNavigation TIMELINES ROOT_ITEMS getListEntries st
     = filterNavigation (pinnedList_items TIMELINES ROOT_ITEMS getListEntries st) (pinnedList_options st)
   \<and> (\<forall>x \<in> set (pinnedList_items TIMELINES ROOT_ITEMS getListEntries st). name x \<in> pinnedItems st)"
  by (auto simp: pinnedList_def pinnedList_items_def dest: pinned_of_table_name)

lemma sample_items:
  "pinnedList_items sample_TIMELINES sample_ROOT_ITEMS sample_getListEntries sample_store
     = [\<lparr>name = ''friends'', props = ''/main/friends''\<rparr>, \<lparr>name = ''list-2'', props = ''/lists/2''\<rparr>,
        \<lparr>name = ''chats'', props = ''/chats''\<rparr>]"
  by (simp add: pinnedList_items_def pinned_of_table_def pinnedItems_def sample_TIMELINES_def
      sample_ROOT_ITEMS_def sample_getListEntries_def sample_store_def)

text \<open>
  With \<open>friends\<close>, \<open>list-2\<close>, \<open>chats\<close> and \<open>gone\<close> pinned: one entry of each of
  the three sources is passed on, and no entry of the other names.
\<close>

theorem pinned_entries_only_witness:
  "pinnedList_items sample_TIMELINES sample_ROOT_ITEMS sample_getListEntries sample_store
     = [\<lparr>name = ''friends'', props = ''/main/friends''\<rparr>, \<lparr>name = ''list-2'', props = ''/lists/2''\<rparr>,
        \<lparr>name = ''chats'', props = ''/chats''\<rparr>]
   \<and> pinnedItems sample_store = {''friends'', ''list-2'', ''chats'', ''gone''}
   \<and> list_all (\<lambda>x. name x \<in> pinnedItems sample_store)
        (pinnedList_items sample_TIMELINES sample_ROOT_ITEMS sample_getListEntries sample_store)"
  using pinned_entries_only [of sample_filterNavigation sample_TIMELINES sample_ROOT_ITEMS
      sample_getListEntries sample_store]
  by (simp add: sample_items list_all_iff) (simp add: pinnedItems_def sample_store_def)

text \<open>
  Claim C9. The option \<^verbatim>\<open>isPrivate\<close> that \<^verbatim>\<open>pinnedList\<close> gives to
  \<^verbatim>\<open>filterNavigation\<close> is always \<^verbatim>\<open>undefined\<close>: \<^verbatim>\<open>pinnedList\<close> reads
  \<^verbatim>\<open>this.private\<close>, and the flag \<^verbatim>\<open>instance.private\<close> of the store is in the
  component under the name \<^verbatim>\<open>privateMode\<close>. So the options do not depend on that
  flag, and neither does the filtered list, whatever \<^verbatim>\<open>filterNavigation\<close> is, as long
  as the imported selector \<^verbatim>\<open>getListEntries\<close> gives the same lists for both values
  of the flag.
\<close>

theorem isPrivate_always_undefined:
  "isPrivate (pinnedList_options st) = None
   \<and> this_flag st ''privateMode'' = Some (instance_private st)
   \<and> pinnedList_options (st\<lparr>instance_private := p\<rparr>) = pinnedList_options st
   \<and> (getListEntries (st\<lparr>instance_private := p\<rparr>) = getListEntries st \<longrightarrow>
        pinnedList filterNavigation TIMELINES ROOT_ITEMS getListEntries (st\<lparr>instance_private := p\<rparr>)
          = pinnedList filterNavigation TIMELINES ROOT_ITEMS getListEntries st)"
  by (simp add: pinnedList_def pinnedList_items_def pinnedList_options_def this_flag_def
      pinnedItems_def privateMode_def federating_def pleromaChatMessagesAvailable_def currentUser_def)

lemma sample_options:
  "pinnedList_options sample_store
     = \<lparr>hasChats = Some True, isFederating = Some True, isPrivate = None,
        currentUser' = JObj [(''screen_name'', JStr ''alice'')]\<rparr>"
  by (simp add: pinnedList_options_def this_flag_def pleromaChatMessagesAvailable_def federating_def
      currentUser_def sample_store_def)

text \<open>
  A filter that would drop \<open>friends\<close> on a private instance keeps it when the store
  says the instance is private, since the option never arrives.
\<close>

theorem isPrivate_always_undefined_witness:
  "sample_getListEntries (sample_store\<lparr>instance_private := True\<rparr>) = sample_getListEntries sample_store
   \<and> instance_private sample_store = False
   \<and> isPrivate (pinnedList_options (sample_store\<lparr>instance_private := True\<rparr>)) = None
   \<and> pinnedList sample_filterNavigation sample_TIMELINES sample_ROOT_ITEMS sample_getListEntries
        (sample_store\<lparr>instance_private := True\<rparr>)
       = [\<lparr>name = ''friends'', props = ''/main/friends''\<rparr>, \<lparr>name = ''list-2'', props = ''/lists/2''\<rparr>,
          \<lparr>name = ''chats'', props = ''/chats''\<rparr>]
   \<and> sample_filterNavigation
        (pinnedList_items sample_TIMELINES sample_ROOT_ITEMS sample_getListEntries sample_store)
        ((pinnedList_options sample_store)\<lparr>isPrivate := Some True\<rparr>)
       = [\<lparr>name = ''list-2'', props = ''/lists/2''\<rparr>, \<lparr>name = ''chats'', props = ''/chats''\<rparr>]"
proof -
  have same: "sample_getListEntries (sample_store\<lparr>instance_private := True\<rparr>)
      = sample_getListEntries sample_store"
    by (simp add: sample_getListEntries_def)
  have base: "pinnedList sample_filterNavigation sample_TIMELINES sample_ROOT_ITEMS
      sample_getListEntries sample_store
       = [\<lparr>name = ''friends'', props = ''/main/friends''\<rparr>, \<lparr>name = ''list-2'', props = ''/lists/2''\<rparr>,
          \<lparr>name = ''chats'', props = ''/chats''\<rparr>]"
    by (simp add: pinnedList_def sample_items sample_options sample_filterNavigation_def)
  have other: "sample_filterNavigation
        (pinnedList_items sample_TIMELINES sample_ROOT_ITEMS sample_getListEntries sample_store)
        ((pinnedList_options sample_store)\<lparr>isPrivate := Some True\<rparr>)
       = [\<lparr>name = ''list-2'', props = ''/lists/2''\<rparr>, \<lparr>name = ''chats'', props = ''/chats''\<rparr>]"
    by (simp add: sample_items sample_options sample_filterNavigation_def)
  have flag: "instance_private sample_store = False"
    by (simp add: sample_store_def)
  from isPrivate_always_undefined [where st = sample_store and p = True
      and getListEntries = sample_getListEntries and filterNavigation = sample_filterNavigation
      and TIMELINES = sample_TIMELINES and ROOT_ITEMS = sample_ROOT_ITEMS]
    isPrivate_always_undefined [where st = "sample_store\<lparr>instance_private := True\<rparr>"]
  show ?thesis
    using same base other flag by simp
qed


section \<open>Follow suggestions\<close>

lemma show_entries:
  "foldl (\<lambda>acc i. show_entry i acc) (s, fx) reply
     = (s\<lparr>users := users s @ map entry_user reply\<rparr>, fx @ map (\<lambda>i. ExternalProfile (acct i)) reply)"
  by (induction reply arbitrary: s fx) (simp_all add: show_entry_def entry_user_def)

text \<open>
  Claim C10. The avatar of a follow suggestion has a default. \<^verbatim>\<open>showWhoToFollow\<close>
  appends one user for each entry of the reply, in the order of the reply. The user's
  \<^verbatim>\<open>profile_image_url\<close> is the entry's \<^verbatim>\<open>avatar\<close> when that is truthy, so when it
  is a string that is not empty, and \<^verbatim>\<open>'/images/avi.png'\<close> otherwise, so when the
  avatar is missing, \<^verbatim>\<open>null\<close> or the empty string.
\<close>

theorem follow_avatar_default:
  "users (fst (showWhoToFollow reply s)) = users s @ map entry_user reply
   \<and> length (users (fst (showWhoToFollow reply s))) = length (users s) + length reply
   \<and> (\<forall>i \<in> set reply.
        profile_image_url (entry_user i)
          = (if truthy (avatar i) then avatar i else JStr ''/images/avi.png'')
        \<and> (\<forall>url. avatar i = JStr url \<and> url \<noteq> [] \<longrightarrow> profile_image_url (entry_user i) = JStr url)
        \<and> (avatar i = Undefined \<or> avatar i = Null \<or> avatar i = JStr [] \<longrightarrow>
             profile_image_url (entry_user i) = JStr ''/images/avi.png''))"
  by (auto simp: showWhoToFollow_def show_entries entry_user_def js_or_def)

text \<open>A reply of three entries: with an avatar, without one, and with an empty one.\<close>

theorem follow_avatar_default_witness:
  "map profile_image_url (users (fst (showWhoToFollow sample_reply who_to_follow_data)))
     = [JStr ''/media/bob.png'', JStr ''/images/avi.png'', JStr ''/images/avi.png'']
   \<and> map user_name (users (fst (showWhoToFollow sample_reply who_to_follow_data)))
     = [JStr ''Bob'', JStr ''Carol'', JStr ''Dan'']
   \<and> snd (showWhoToFollow sample_reply who_to_follow_data)
     = [ExternalProfile (JStr ''bob@example.org''), ExternalProfile (JStr ''carol''), ExternalProfile (JStr ''dan'')]"
  using follow_avatar_default [of sample_reply who_to_follow_data]
  by (simp add: showWhoToFollow_def show_entries)
    (simp add: sample_reply_def who_to_follow_data_def entry_user_def js_or_def)


section \<open>Suggestions and the caret\<close>

text \<open>
  Claim C5. The list of suggestions is bounded. For every suggest function and every
  text and caret, the computed property \<^verbatim>\<open>suggestions\<close> has at most 5 entries. It is
  empty whenever the word at the caret has at most one character or the suggest
  function finds nothing. Otherwise its entries are made of the first 5 results of
  \<^verbatim>\<open>suggest\<close> for the word at the caret, in their order: entry \<open>k\<close> has the texts of
  result \<open>k\<close>, its image (or the empty string) as \<^verbatim>\<open>img\<close>, and is marked as
  highlighted when \<open>k\<close> is the highlighted index.
\<close>

theorem suggestions_bounded:
  "length (suggestions C s) \<le> 5
   \<and> (length (textAtCaret C s) \<le> 1 \<or> suggest s (textAtCaret C s) = [] \<longrightarrow> suggestions C s = [])
   \<and> (1 < length (textAtCaret C s) \<longrightarrow>
        length (suggestions C s) = min 5 (length (suggest s (textAtCaret C s)))
        \<and> (\<forall>k < length (suggestions C s).
              displayText (suggestions C s ! k) = displayText (suggest s (textAtCaret C s) ! k)
              \<and> replacement (suggestions C s ! k) = replacement (suggest s (textAtCaret C s) ! k)
              \<and> detailText (suggestions C s ! k) = detailText (suggest s (textAtCaret C s) ! k)
              \<and> img (suggestions C s ! k)
                  = (case imageUrl (suggest s (textAtCaret C s) ! k) of None \<Rightarrow> [] | Some u \<Rightarrow> u)
              \<and> is_highlighted (suggestions C s ! k) = (int k = highlighted s)))"
  by (auto simp: suggestions_cases shown_def nth_enumerate_eq)

text \<open>
  Six matches for the word \<open>:sm\<close>: the first five are shown. The word before it is a
  single space, and a suggest function without results shows nothing.
\<close>

theorem suggestions_bounded_witness:
  "textAtCaret sample_completion sample_input = '':sm''
   \<and> length (sample_suggest '':sm'') = 6
   \<and> map displayText (suggestions sample_completion sample_input)
       = ['':sma'', '':smb'', '':smc'', '':smd'', '':sme'']
   \<and> map displayText (take 5 (sample_suggest '':sm''))
       = ['':sma'', '':smb'', '':smc'', '':smd'', '':sme'']
   \<and> map img (suggestions sample_completion sample_input) = [[], ''/b.png'', [], [], []]
   \<and> map is_highlighted (suggestions sample_completion sample_input) = [True, False, False, False, False]
   \<and> suggestions sample_completion (sample_input\<lparr>caret := Num 3\<rparr>) = []
   \<and> suggestions sample_completion (sample_input\<lparr>suggest := (\<lambda>t. [])\<rparr>) = []"
  using suggestions_bounded [of sample_completion sample_input]
    suggestions_bounded [of sample_completion "sample_input\<lparr>caret := Num 3\<rparr>"]
    suggestions_bounded [of sample_completion "sample_input\<lparr>suggest := (\<lambda>t. [])\<rparr>"]
  by (simp add: suggestions_cases sample_text sample_fields sample_suggest_def shown_def
      textAtCaret_def wordAtCaret_def sample_completion_def sample_wordAtPosition_def)















text \<open>
  When \<^verbatim>\<open>wordAtPosition\<close> gives a falsy result and the component puts the empty object
  in its place, the Enter key changes nothing, and a chosen suggestion, if
  \<^verbatim>\<open>replaceWord\<close> returns a text for the empty object, has \<^verbatim>\<open>NaN\<close> stored as the
  caret.
\<close>

lemma replaceText_empty_object:
  assumes "wordAtCaret C s = EmptyObject"
  shows "replaceText C None s = returns s"
    and "replaceWord C (value' s) EmptyObject (replacement g) = Inr v \<Longrightarrow>
      emitted (replaceText C (Some g) s) = [v] \<and> nextTick (replaceText C (Some g) s) = Some NaN"
  using assms
  by (simp_all add: replaceText_def suggestions_def textAtCaret_def chosen_replacement_def
      position_after_def returns_def Let_def)












section \<open>Blur and focus\<close>

lemma onBlur_simps:
  "focused (fst (onBlur st)) = focused (fst st)"
  "blurTimeout (fst (onBlur st)) = Some (Suc (issued (snd st)))"
  "pending (snd (onBlur st)) = (pending (snd st))(Suc (issued (snd st)) \<mapsto> BlurCallback)"
  by (simp_all add: onBlur_def setTimeout_def split_beta Let_def)

lemma onFocus_simps:
  "focused (fst (onFocus sel st)) = True"
  "pending (snd (onFocus sel st))
     = (case blurTimeout (fst st) of
          None \<Rightarrow> pending (snd st)
        | Some h \<Rightarrow> if h \<noteq> 0 then (pending (snd st))(h := None) else pending (snd st))"
  "blurTimeout (fst (onFocus sel st))
     = (case blurTimeout (fst st) of
          None \<Rightarrow> None
        | Some h \<Rightarrow> if h \<noteq> 0 then None else Some h)"
  by (simp_all add: onFocus_def clearTimeout_def setCaret_def split_beta Let_def split: option.split)

lemma fire_simps:
  "pending (snd (fire h sel st)) = (pending (snd st))(h := None)"
  "blurTimeout (fst (fire h sel st)) = blurTimeout (fst st)"
  "focused (fst (fire h sel st)) = (focused (fst st) \<and> pending (snd st) h \<noteq> Some BlurCallback)"
  by (auto simp: fire_def clearTimeout_def setCaret_def split_beta Let_def
      split: option.split timer_callback.split)

lemma blur_tracked_onBlur: "no_blur_pending st \<Longrightarrow> blur_tracked (onBlur st)"
  by (simp add: blur_tracked_def no_blur_pending_def onBlur_simps)

lemma no_blur_pending_onFocus: "blur_tracked st \<Longrightarrow> no_blur_pending (onFocus sel st)"
  by (auto simp: blur_tracked_def no_blur_pending_def onFocus_simps split: option.split)

lemma no_blur_pending_fire: "no_blur_pending st \<Longrightarrow> no_blur_pending (fire h sel st)"
  by (simp add: no_blur_pending_def fire_simps)

lemma blur_tracked_fire: "blur_tracked st \<Longrightarrow> blur_tracked (fire h sel st)"
  by (simp add: blur_tracked_def fire_simps)

lemma no_blur_pending_tracked: "no_blur_pending st \<Longrightarrow> blur_tracked st"
  by (simp add: blur_tracked_def no_blur_pending_def)

lemma fires_keep_focus:
  "no_blur_pending st \<Longrightarrow> focused (fst st) \<Longrightarrow> focused (fst (fires fs st))"
proof (induction fs arbitrary: st)
  case Nil
  then show ?case by simp
next
  case (Cons f fs)
  obtain h sel where f: "f = (h, sel)" by (cases f)
  from Cons.prems have "no_blur_pending (fire h sel st)" "focused (fst (fire h sel st))"
    by (simp_all add: no_blur_pending_fire fire_simps no_blur_pending_def)
  with Cons.IH f show ?case by simp
qed

lemma alternating_tracked:
  "alternating has_focus es \<Longrightarrow> blur_tracked st \<Longrightarrow> (has_focus \<longrightarrow> no_blur_pending st)
    \<Longrightarrow> blur_tracked (run es st)"
proof (induction es arbitrary: has_focus st)
  case Nil
  then show ?case by simp
next
  case (Cons e es)
  show ?case
  proof (cases e)
    case Blur
    with Cons.prems have "alternating False es" "blur_tracked (onBlur st)"
      by (simp_all add: blur_tracked_onBlur)
    with Cons.IH [of False "onBlur st"] Blur show ?thesis by simp
  next
    case (Focus sel)
    with Cons.prems have "alternating True es" "no_blur_pending (onFocus sel st)"
      by (simp_all add: no_blur_pending_onFocus)
    with Cons.IH [of True "onFocus sel st"] Focus show ?thesis
      by (simp add: no_blur_pending_tracked)
  next
    case (Timeout h sel)
    with Cons.prems have "alternating has_focus es" "blur_tracked (fire h sel st)"
      "has_focus \<longrightarrow> no_blur_pending (fire h sel st)"
      by (simp_all add: blur_tracked_fire no_blur_pending_fire)
    with Cons.IH [of has_focus "fire h sel st"] Timeout show ?thesis by simp
  qed
qed

text \<open>
  Claim C7. A blur is cancelled by a focus. \<^verbatim>\<open>onBlur\<close> leaves the flag
  \<^verbatim>\<open>focused\<close> as it is and schedules a timer, whose handle it stores in
  \<^verbatim>\<open>blurTimeout\<close> and whose callback would clear the flag. When \<^verbatim>\<open>onFocus\<close> runs
  while that timer is pending, it clears the timer and sets \<^verbatim>\<open>blurTimeout\<close> to
  \<^verbatim>\<open>null\<close>. So after a focus event that arrives before the blur timer has run, no
  timer makes the component unfocused: in every state in which the pending blur
  callback is the one \<^verbatim>\<open>blurTimeout\<close> holds, which a blur establishes, and so after
  every sequence of alternating blur and focus events and timers that starts without
  timers.
\<close>

theorem blur_cancelled_by_focus:
  "focused (fst (onBlur st)) = focused (fst st)
   \<and> blurTimeout (fst (onBlur st)) = Some (Suc (issued (snd st)))
   \<and> pending (snd (onBlur st)) (Suc (issued (snd st))) = Some BlurCallback
   \<and> \<not> focused (fst (fire (Suc (issued (snd st))) selectionStart' (onBlur st)))
   \<and> blurTimeout (fst (onFocus selectionStart (onBlur st))) = None
   \<and> pending (snd (onFocus selectionStart (onBlur st))) (Suc (issued (snd st))) = None
   \<and> (no_blur_pending st \<longrightarrow> blur_tracked (onBlur st))
   \<and> (blur_tracked st \<longrightarrow>
        no_blur_pending (onFocus selectionStart st)
        \<and> (\<forall>fs. focused (fst (fires fs (onFocus selectionStart st)))))
   \<and> (alternating False es \<longrightarrow>
        (\<forall>fs. focused (fst (fires fs (onFocus selectionStart (run es (s, no_timers)))))))"
proof -
  have "blur_tracked (run es (s, no_timers))" if "alternating False es"
    using that by (rule alternating_tracked) (simp_all add: blur_tracked_def no_timers_def)
  then show ?thesis
    by (simp add: onBlur_simps onFocus_simps fire_simps blur_tracked_onBlur no_blur_pending_onFocus
        fires_keep_focus)
qed

text \<open>
  A focused component with no timers: the blur schedules timer 1, which would clear the
  flag; the focus event cancels it, and the flag stays set when the browser comes to
  timer 1.
\<close>

theorem blur_cancelled_by_focus_witness:
  "no_blur_pending sample_focused
   \<and> focused (fst sample_focused)
   \<and> focused (fst (onBlur sample_focused))
   \<and> blurTimeout (fst (onBlur sample_focused)) = Some 1
   \<and> pending (snd (onBlur sample_focused)) 1 = Some BlurCallback
   \<and> \<not> focused (fst (fire 1 6 (onBlur sample_focused)))
   \<and> blur_tracked (onBlur sample_focused)
   \<and> blurTimeout (fst (onFocus 6 (onBlur sample_focused))) = None
   \<and> pending (snd (onFocus 6 (onBlur sample_focused))) 1 = None
   \<and> focused (fst (fires [(1, 6)] (onFocus 6 (onBlur sample_focused))))
   \<and> alternating False [Focus 6, Blur]
   \<and> focused (fst (fires [(1, 6)] (onFocus 6 (run [Focus 6, Blur] (sample_input, no_timers)))))"
proof -
  have n: "no_blur_pending sample_focused"
    by (simp add: no_blur_pending_def sample_focused_def no_timers_def)
  have i: "issued (snd sample_focused) = 0" "focused (fst sample_focused)"
    by (simp_all add: sample_focused_def no_timers_def)
  from blur_cancelled_by_focus [of sample_focused 6 6] n i
  have t: "blur_tracked (onBlur sample_focused)" by simp
  have a: "alternating False [Focus 6, Blur]"
    by simp
  from blur_cancelled_by_focus [of sample_focused 6 6]
    blur_cancelled_by_focus [of "onBlur sample_focused" 6 6 "[Focus 6, Blur]" sample_input] n i t a
  show ?thesis by (simp del: fires.simps run.simps)
qed

end
